theory Spec2Isabelle
  imports Main "HOL-Library.AList"
begin

section \<open>Data frames\<close>

text \<open>
  The scripts hold their data in pandas data frames built by \<open>pd.read_csv\<close>: labelled
  columns over the default index \<open>0, 1, ..., n - 1\<close>. A frame is modelled by its row count
  (the length of the index) and its columns in order, each a label with its cells, stored
  column by column as pandas does. A cell is \<open>None\<close> where pandas holds NaN (a missing
  value) and \<open>Some v\<close> otherwise. Labels may repeat: pandas allows duplicate column names.
\<close>

record 'v frame =
  nrows :: nat
  cols :: "(string \<times> 'v option list) list"

definition well_formed :: "'v frame \<Rightarrow> bool" where
  "well_formed t = list_all (\<lambda>c. length (snd c) = nrows t) (cols t)"

definition columns :: "'v frame \<Rightarrow> string list" where
  "columns t = map fst (cols t)"

definition shape :: "'v frame \<Rightarrow> nat \<times> nat" where
  "shape t = (nrows t, length (cols t))"

text \<open>
  \<open>pd.concat([a, b], axis=1)\<close> with the default outer join: the index of the result is the
  union of the two indexes, so it has as many rows as the longer frame; every column of
  both frames is kept, in order, re-indexed to the new index, the cells of rows it did
  not have being NaN.
\<close>

definition reindex :: "nat \<Rightarrow> 'v option list \<Rightarrow> 'v option list" where
  "reindex n d = take n d @ replicate (n - length d) None"

definition concat_axis1 :: "'v frame \<Rightarrow> 'v frame \<Rightarrow> 'v frame" where
  "concat_axis1 a b =
     (let n = max (nrows a) (nrows b)
      in \<lparr>nrows = n, cols = map (\<lambda>c. (fst c, reindex n (snd c))) (cols a @ cols b)\<rparr>)"

text \<open>
  \<open>df.isnull().sum().sum()\<close>: the number of NaN cells of each column, then the total.
\<close>

definition isnull_sum :: "'v frame \<Rightarrow> (string \<times> nat) list" where
  "isnull_sum t = map (\<lambda>c. (fst c, length (filter (\<lambda>x. x = None) (snd c)))) (cols t)"

definition isnull_sum_sum :: "'v frame \<Rightarrow> nat" where
  "isnull_sum_sum t = sum_list (map snd (isnull_sum t))"

section \<open>The handler of \<open>data_developer_utils.py\<close>\<close>

text \<open>
  The Python exceptions that reach the code. \<open>pd.read_csv\<close> is the environment of the
  program (the file system and the CSV parser): it is a parameter \<open>read_csv\<close> giving, for
  each path, the frame read or the exception raised.
\<close>

datatype exn = FileNotFoundError | PermissionError | EmptyDataError | ParserError | ValueError

record 'v handler =
  stress_path :: string
  stress_level_path :: string
  df :: "'v frame option"

text \<open>
  \<open>_load_and_merge_data\<close>: both files are read inside one \<open>try\<close>, the first one first; only
  \<open>FileNotFoundError\<close> is caught (a line is printed and \<open>None\<close> returned), every other
  exception propagates. The result is the value returned with the lines printed.
\<close>

definition load_and_merge_data ::
  "(string \<Rightarrow> exn + 'v frame) \<Rightarrow> string \<Rightarrow> string \<Rightarrow> exn + ('v frame option \<times> string list)" where
  "load_and_merge_data read_csv sp slp =
     (case read_csv sp of
        Inl e \<Rightarrow>
          if e = FileNotFoundError
          then Inr (None, [''Make sure the CSV files are in the correct directory.''])
          else Inl e
      | Inr stress_df \<Rightarrow>
          (case read_csv slp of
             Inl e \<Rightarrow>
               if e = FileNotFoundError
               then Inr (None, [''Make sure the CSV files are in the correct directory.''])
               else Inl e
           | Inr stress_level_df \<Rightarrow> Inr (Some (concat_axis1 stress_df stress_level_df), [])))"

text \<open>\<open>StressDataHandler.__init__\<close>: the new handler with the lines printed.\<close>

definition init ::
  "(string \<Rightarrow> exn + 'v frame) \<Rightarrow> string \<Rightarrow> string \<Rightarrow> exn + ('v handler \<times> string list)" where
  "init read_csv sp slp =
     (case load_and_merge_data read_csv sp slp of
        Inl e \<Rightarrow> Inl e
      | Inr (d, out) \<Rightarrow> Inr (\<lparr>stress_path = sp, stress_level_path = slp, df = d\<rparr>, out))"

definition expected_columns :: "string list" where
  "expected_columns = [''Gender'', ''Age'', ''stress_level'']"

text \<open>
  \<open>validate_data\<close>: the value returned, the lines printed and the handler after the call.
\<close>

definition validate_data :: "'v handler \<Rightarrow> bool \<times> string list \<times> 'v handler" where
  "validate_data h =
     (case df h of
        None \<Rightarrow> (False, [], h)
      | Some t \<Rightarrow>
          if isnull_sum_sum t > 0
          then (False, [''Error: Missing values found in the data.''], h)
          else if \<not> list_all (\<lambda>col. col \<in> set (columns t)) expected_columns
          then (False, [''Error: Missing expected columns.''], h)
          else (True, [''Data validation successful.''], h))"

section \<open>JSON export\<close>

text \<open>
  The cells the export is modelled for: 64-bit integers (held as \<open>int\<close>), strings and
  booleans; a missing value is \<open>None\<close>. Floating-point cells are not modelled. A string is
  a list of characters with code points below 256.
\<close>

datatype scalar = IntCell int | StrCell string | BoolCell bool

text \<open>
  The rows of a frame, as \<open>to_json(orient='records')\<close> walks them: one record per index
  value, each pairing every column label, in column order, with the cell of that row.
\<close>

definition nth_cell :: "'v option list \<Rightarrow> nat \<Rightarrow> 'v option" where
  "nth_cell d i = (if i < length d then d ! i else None)"

definition to_records :: "'v frame \<Rightarrow> (string \<times> 'v option) list list" where
  "to_records t = map (\<lambda>i. map (\<lambda>c. (fst c, nth_cell (snd c) i)) (cols t)) [0..<nrows t]"

text \<open>
  The text pandas' encoder writes. Integers are written in decimal. Strings are quoted;
  the quote, the backslash and the slash are escaped, control characters and characters
  above 127 are written as \<open>\b \f \n \r \t\<close> or \<open>\u00XX\<close>.
\<close>

definition digit_char :: "nat \<Rightarrow> char" where
  "digit_char n = char_of (48 + n)"

fun digits :: "nat \<Rightarrow> string" where
  "digits n = (if n < 10 then [digit_char n] else digits (n div 10) @ [digit_char (n mod 10)])"

definition encode_int :: "int \<Rightarrow> string" where
  "encode_int i = (if i < 0 then CHR ''-'' # digits (nat (- i)) else digits (nat i))"

definition hex_char :: "nat \<Rightarrow> char" where
  "hex_char n = (if n < 10 then char_of (48 + n) else char_of (87 + n))"

definition escape_char :: "char \<Rightarrow> string" where
  "escape_char c =
     (if c = CHR 0x22 then [CHR 0x5C, CHR 0x22]
      else if c = CHR 0x5C then [CHR 0x5C, CHR 0x5C]
      else if c = CHR ''/'' then [CHR 0x5C, CHR ''/'']
      else if c = CHR 0x08 then [CHR 0x5C, CHR ''b'']
      else if c = CHR 0x0C then [CHR 0x5C, CHR ''f'']
      else if c = CHR 0x0A then [CHR 0x5C, CHR ''n'']
      else if c = CHR 0x0D then [CHR 0x5C, CHR ''r'']
      else if c = CHR 0x09 then [CHR 0x5C, CHR ''t'']
      else if of_char c < (32::nat) \<or> of_char c \<ge> (128::nat)
      then [CHR 0x5C, CHR ''u'', CHR ''0'', CHR ''0'',
            hex_char (of_char c div 16), hex_char (of_char c mod 16)]
      else [c])"

definition encode_string :: "string \<Rightarrow> string" where
  "encode_string s = CHR 0x22 # concat (map escape_char s) @ [CHR 0x22]"

fun encode_scalar :: "scalar option \<Rightarrow> string" where
  "encode_scalar None = ''null''"
| "encode_scalar (Some (IntCell i)) = encode_int i"
| "encode_scalar (Some (StrCell s)) = encode_string s"
| "encode_scalar (Some (BoolCell b)) = (if b then ''true'' else ''false'')"

text \<open>
  The layout: with a positive \<open>indent\<close> the encoder starts a new line after every opening
  bracket, after every comma between items and before every closing bracket, and puts
  \<open>indent\<close> spaces per nesting level in front of every item and of a closing brace. A
  member is written \<open>"key":value\<close>.
\<close>

definition newline :: "nat \<Rightarrow> string" where
  "newline indent = (if indent > 0 then [CHR 0x0A] else [])"

definition pad :: "nat \<Rightarrow> nat \<Rightarrow> string" where
  "pad indent level = replicate (indent * level) (CHR '' '')"

fun join :: "'a list \<Rightarrow> 'a list list \<Rightarrow> 'a list" where
  "join sep [] = []"
| "join sep [x] = x"
| "join sep (x # y # ys) = x @ sep @ join sep (y # ys)"

definition encode_member :: "nat \<Rightarrow> string \<times> scalar option \<Rightarrow> string" where
  "encode_member indent m = pad indent 2 @ encode_string (fst m) @ '':'' @ encode_scalar (snd m)"

definition encode_record :: "nat \<Rightarrow> (string \<times> scalar option) list \<Rightarrow> string" where
  "encode_record indent r =
     pad indent 1 @ ''{'' @ newline indent
       @ join ('','' @ newline indent) (map (encode_member indent) r)
       @ newline indent @ pad indent 1 @ ''}''"

definition encode_records :: "nat \<Rightarrow> (string \<times> scalar option) list list \<Rightarrow> string" where
  "encode_records indent rs =
     ''['' @ newline indent
       @ join ('','' @ newline indent) (map (encode_record indent) rs)
       @ newline indent @ '']''"

text \<open>
  \<open>df.to_json(orient=orient, indent=indent)\<close>. With \<open>orient='records'\<close> pandas refuses a
  frame whose column labels are not unique (\<open>ValueError\<close>). The other orientations are not
  spelled out: they are the parameter \<open>other\<close>, which gives the text or the exception for
  an orientation, an indent and a frame.
\<close>

definition to_json ::
  "(string \<Rightarrow> nat \<Rightarrow> scalar frame \<Rightarrow> exn + string) \<Rightarrow> scalar frame \<Rightarrow> string \<Rightarrow> nat \<Rightarrow> exn + string" where
  "to_json other t orient indent =
     (if orient = ''records''
      then (if distinct (columns t) then Inr (encode_records indent (to_records t))
            else Inl ValueError)
      else other orient indent t)"

text \<open>
  \<open>get_data_as_json\<close>: the string returned (\<open>None\<close> without a frame) or the exception
  raised, and the handler after the call.
\<close>

definition get_data_as_json ::
  "(string \<Rightarrow> nat \<Rightarrow> scalar frame \<Rightarrow> exn + string) \<Rightarrow> scalar handler \<Rightarrow> string
     \<Rightarrow> (exn + string option) \<times> scalar handler" where
  "get_data_as_json other h orient =
     (case df h of
        None \<Rightarrow> (Inr None, h)
      | Some t \<Rightarrow>
          (case to_json other t orient 4 of
             Inl e \<Rightarrow> (Inl e, h)
           | Inr s \<Rightarrow> (Inr (Some s), h)))"

section \<open>Reading the exported JSON back\<close>















section \<open>The merged table of \<open>interactive_data_analysis.py\<close>\<close>









section \<open>Example data\<close>

text \<open>
  Small frames with the columns of the data set, and a file system holding them: two
  files of five rows with three and two columns, a file of four rows, a file that shares
  a column label with the first one, a file that exists but cannot be opened, a file
  without content, and no other file.
\<close>

definition stress_example :: "scalar frame" where
  "stress_example =
     \<lparr>nrows = 5,
      cols = [(''Gender'', map (Some \<circ> IntCell) [0, 1, 0, 1, 1]),
              (''Age'', map (Some \<circ> IntCell) [20, 19, 22, 21, 20]),
              (''Which type of stress do you primarily experience?'',
               map (Some \<circ> StrCell) [''Eustress'', ''Distress'', ''Eustress'', ''No Stress'', ''Distress''])]\<rparr>"

definition level_example :: "scalar frame" where
  "level_example =
     \<lparr>nrows = 5,
      cols = [(''anxiety_level'', map (Some \<circ> IntCell) [14, 15, 12, 16, 16]),
              (''stress_level'', map (Some \<circ> IntCell) [1, 2, 1, 2, 1])]\<rparr>"

definition short_example :: "scalar frame" where
  "short_example =
     \<lparr>nrows = 4,
      cols = [(''anxiety_level'', map (Some \<circ> IntCell) [14, 15, 12, 16]),
              (''stress_level'', map (Some \<circ> IntCell) [1, 2, 1, 2])]\<rparr>"

definition ages_example :: "scalar frame" where
  "ages_example =
     \<lparr>nrows = 5,
      cols = [(''Age'', map (Some \<circ> IntCell) [20, 19, 22, 21, 20]),
              (''stress_level'', map (Some \<circ> IntCell) [1, 2, 1, 2, 1])]\<rparr>"

definition example_files :: "string \<Rightarrow> exn + scalar frame" where
  "example_files path =
     (if path = ''Stress_Dataset.csv'' then Inr stress_example
      else if path = ''StressLevelDataset.csv'' then Inr level_example
      else if path = ''short.csv'' then Inr short_example
      else if path = ''ages.csv'' then Inr ages_example
      else if path = ''locked.csv'' then Inl PermissionError
      else if path = ''empty.csv'' then Inl EmptyDataError
      else Inl FileNotFoundError)"

definition unknown_orient :: "string \<Rightarrow> nat \<Rightarrow> scalar frame \<Rightarrow> exn + string" where
  "unknown_orient orient indent t = Inl ValueError"

definition nulls_example :: "scalar frame" where
  "nulls_example =
     \<lparr>nrows = 2,
      cols = [(''Gender'', [Some (IntCell 0), None]),
              (''anxiety_level'', [Some (IntCell 14), Some (IntCell 15)])]\<rparr>"

definition gender_only_example :: "scalar frame" where
  "gender_only_example =
     \<lparr>nrows = 2, cols = [(''Gender'', [Some (IntCell 0), Some (IntCell 1)])]\<rparr>"

definition handler_of :: "scalar frame \<Rightarrow> scalar handler" where
  "handler_of t =
     \<lparr>stress_path = ''Stress_Dataset.csv'', stress_level_path = ''StressLevelDataset.csv'',
      df = Some t\<rparr>"

definition merged_example :: "scalar frame" where
  "merged_example = concat_axis1 stress_example level_example"


section \<open>Notions used in the proofs\<close>











lemmas example_defs = stress_example_def level_example_def short_example_def ages_example_def

section \<open>Properties of merging and validation\<close>

lemma reindex_same: "length d = n \<Longrightarrow> reindex n d = d"
  by (simp add: reindex_def)

lemma reindex_longer: "length d \<le> n \<Longrightarrow> reindex n d = d @ replicate (n - length d) None"
  by (simp add: reindex_def)

lemma length_reindex: "length (reindex n d) = n"
  by (simp add: reindex_def)

lemma well_formed_concat: "well_formed (concat_axis1 a b)"
  by (auto simp: well_formed_def concat_axis1_def Let_def list_all_iff length_reindex)

lemma columns_concat: "columns (concat_axis1 a b) = columns a @ columns b"
  by (simp add: columns_def concat_axis1_def Let_def comp_def)

lemma filter_None_empty: "filter (\<lambda>x. x = None) d = [] \<longleftrightarrow> None \<notin> set d"
  by (induction d) auto

lemma isnull_sum_sum_pos:
  "isnull_sum_sum t > 0 \<longleftrightarrow> (\<exists>c \<in> set (cols t). None \<in> set (snd c))"
proof -
  have "isnull_sum_sum t = 0 \<longleftrightarrow> (\<forall>c \<in> set (cols t). None \<notin> set (snd c))"
    unfolding isnull_sum_sum_def isnull_sum_def
    by (simp add: comp_def filter_None_empty)
  then show ?thesis
    by (metis gr0I less_numeral_extra(3))
qed

lemma concat_equal_rows:
  assumes "well_formed a" "well_formed b" "nrows a = nrows b"
  shows "concat_axis1 a b = \<lparr>nrows = nrows a, cols = cols a @ cols b\<rparr>"
proof -
  have "map (\<lambda>c. (fst c, reindex (nrows a) (snd c))) (cols a @ cols b) = cols a @ cols b"
    using assms by (intro map_idI) (auto simp: well_formed_def list_all_iff reindex_same)
  then show ?thesis using assms by (simp add: concat_axis1_def Let_def)
qed

section \<open>The reader reads what the encoder writes\<close>

















lemma char_hex_split:
  "char_of (16 * (of_char c div 16) + of_char c mod (16::nat)) = c"
  by simp





















































section \<open>Properties of the examples and of the renaming\<close>

lemma merged_example_cols:
  "merged_example = \<lparr>nrows = 5, cols = cols stress_example @ cols level_example\<rparr>"
  unfolding merged_example_def
  by (subst concat_equal_rows) (simp_all add: well_formed_def example_defs)

lemma merged_example_columns:
  "columns merged_example
   = [''Gender'', ''Age'', ''Which type of stress do you primarily experience?'',
      ''anxiety_level'', ''stress_level'']"
  unfolding merged_example_def columns_concat by (simp add: columns_def example_defs)










section \<open>The claims\<close>

text \<open>
  C1. For two well-formed frames with the same number of rows, the handler's merge returns
  the frame that has this number of rows and the columns of both frames, those of the
  first one first, with their cells unchanged: its column count is the sum of the two
  column counts.
\<close>

theorem merge_shape:
  assumes "well_formed a" and "well_formed b" and "nrows a = nrows b"
    and "read_csv sp = Inr a" and "read_csv slp = Inr b"
  shows "load_and_merge_data read_csv sp slp = Inr (Some (concat_axis1 a b), [])
         \<and> shape (concat_axis1 a b) = (nrows a, length (cols a) + length (cols b))
         \<and> cols (concat_axis1 a b) = cols a @ cols b"
  using assms by (simp add: load_and_merge_data_def concat_equal_rows shape_def)

theorem merge_shape_witness:
  "well_formed stress_example \<and> well_formed level_example
   \<and> nrows stress_example = nrows level_example
   \<and> shape stress_example = (5, 3) \<and> shape level_example = (5, 2)
   \<and> shape (concat_axis1 stress_example level_example) = (5, 5)"
proof -
  have wa: "well_formed stress_example" and wb: "well_formed level_example"
    by (simp_all add: well_formed_def example_defs)
  have n: "nrows stress_example = nrows level_example"
    by (simp add: example_defs)
  have ra: "example_files ''Stress_Dataset.csv'' = Inr stress_example"
    and rb: "example_files ''StressLevelDataset.csv'' = Inr level_example"
    by (simp_all add: example_files_def)
  show ?thesis
    using merge_shape [where read_csv = example_files and sp = "''Stress_Dataset.csv''"
        and slp = "''StressLevelDataset.csv''", OF wa wb n ra rb] wa wb
    by (simp add: shape_def example_defs)
qed

text \<open>
  C6. Merging frames of different row counts does not fail. A frame of five rows and a
  frame of four rows give a frame of five rows in which the columns of the shorter frame
  hold NaN in the fifth row.
\<close>

theorem merge_mismatch_counterexample:
  "nrows stress_example = 5 \<and> nrows short_example = 4
   \<and> load_and_merge_data example_files ''Stress_Dataset.csv'' ''short.csv''
       = Inr (Some \<lparr>nrows = 5,
           cols = [(''Gender'', map (Some \<circ> IntCell) [0, 1, 0, 1, 1]),
                   (''Age'', map (Some \<circ> IntCell) [20, 19, 22, 21, 20]),
                   (''Which type of stress do you primarily experience?'',
                    map (Some \<circ> StrCell)
                      [''Eustress'', ''Distress'', ''Eustress'', ''No Stress'', ''Distress'']),
                   (''anxiety_level'', map (Some \<circ> IntCell) [14, 15, 12, 16] @ [None]),
                   (''stress_level'', map (Some \<circ> IntCell) [1, 2, 1, 2] @ [None])]\<rparr>, [])"
  by (simp add: load_and_merge_data_def example_files_def concat_axis1_def reindex_def example_defs)

lemma map_reindex_pad:
  assumes "well_formed a" and "nrows a \<le> n"
  shows "map (\<lambda>c. (fst c, reindex n (snd c))) (cols a)
         = map (\<lambda>c. (fst c, snd c @ replicate (n - nrows a) None)) (cols a)"
  using assms by (auto simp: well_formed_def list_all_iff reindex_longer)

text \<open>
  C6, as the code has it. For two well-formed frames whose row counts differ the merge
  returns a well-formed frame with the larger row count and the columns of both frames;
  each column keeps its cells and is filled with NaN up to the new row count.
\<close>

theorem merge_mismatch:
  assumes "well_formed a" and "well_formed b" and "nrows a \<noteq> nrows b"
    and "read_csv sp = Inr a" and "read_csv slp = Inr b"
  shows "\<exists>m. load_and_merge_data read_csv sp slp = Inr (Some m, [])
           \<and> nrows m = max (nrows a) (nrows b)
           \<and> length (cols m) = length (cols a) + length (cols b)
           \<and> well_formed m
           \<and> cols m = map (\<lambda>c. (fst c, snd c @ replicate (nrows m - nrows a) None)) (cols a)
                      @ map (\<lambda>c. (fst c, snd c @ replicate (nrows m - nrows b) None)) (cols b)"
proof -
  let ?n = "max (nrows a) (nrows b)"
  have "cols (concat_axis1 a b)
        = map (\<lambda>c. (fst c, snd c @ replicate (?n - nrows a) None)) (cols a)
          @ map (\<lambda>c. (fst c, snd c @ replicate (?n - nrows b) None)) (cols b)"
    using map_reindex_pad [OF assms(1), of ?n] map_reindex_pad [OF assms(2), of ?n]
    by (simp add: concat_axis1_def Let_def)
  moreover have "nrows (concat_axis1 a b) = ?n"
    by (simp add: concat_axis1_def Let_def)
  moreover have "length (cols (concat_axis1 a b)) = length (cols a) + length (cols b)"
    by (simp add: concat_axis1_def Let_def)
  moreover have "load_and_merge_data read_csv sp slp = Inr (Some (concat_axis1 a b), [])"
    using assms(4,5) by (simp add: load_and_merge_data_def)
  ultimately show ?thesis
    using well_formed_concat [of a b] by simp
qed

theorem merge_mismatch_witness:
  "well_formed stress_example \<and> well_formed short_example
   \<and> nrows stress_example \<noteq> nrows short_example
   \<and> example_files ''Stress_Dataset.csv'' = Inr stress_example
   \<and> example_files ''short.csv'' = Inr short_example
   \<and> (\<exists>m. load_and_merge_data example_files ''Stress_Dataset.csv'' ''short.csv'' = Inr (Some m, [])
          \<and> nrows m = max (nrows stress_example) (nrows short_example)
          \<and> length (cols m) = length (cols stress_example) + length (cols short_example)
          \<and> well_formed m
          \<and> cols m = map (\<lambda>c. (fst c, snd c @ replicate (nrows m - nrows stress_example) None))
                         (cols stress_example)
                     @ map (\<lambda>c. (fst c, snd c @ replicate (nrows m - nrows short_example) None))
                         (cols short_example))"
proof -
  have wa: "well_formed stress_example" and wb: "well_formed short_example"
    by (simp_all add: well_formed_def example_defs)
  have n: "nrows stress_example \<noteq> nrows short_example"
    by (simp add: example_defs)
  have ra: "example_files ''Stress_Dataset.csv'' = Inr stress_example"
    and rb: "example_files ''short.csv'' = Inr short_example"
    by (simp_all add: example_files_def)
  show ?thesis
    by (intro conjI wa wb n ra rb merge_mismatch [OF wa wb n ra rb])
qed

lemma validate_data_loaded:
  "df h = Some t \<Longrightarrow>
   validate_data h =
     (if \<exists>c \<in> set (cols t). None \<in> set (snd c)
      then (False, [''Error: Missing values found in the data.''], h)
      else if \<not> set expected_columns \<subseteq> set (columns t)
      then (False, [''Error: Missing expected columns.''], h)
      else (True, [''Data validation successful.''], h))"
  by (auto simp: validate_data_def isnull_sum_sum_pos list_all_iff subset_iff)

text \<open>
  C2. The check for missing values comes first: a loaded frame with at least one NaN cell
  is rejected with the message about missing values, whatever its columns are.
\<close>

theorem validate_nulls_first:
  assumes "df h = Some t" and "\<exists>c \<in> set (cols t). None \<in> set (snd c)"
  shows "validate_data h = (False, [''Error: Missing values found in the data.''], h)"
  using assms by (simp add: validate_data_loaded)

theorem validate_nulls_first_witness:
  "df (handler_of nulls_example) = Some nulls_example
   \<and> (\<exists>c \<in> set (cols nulls_example). None \<in> set (snd c))
   \<and> \<not> set expected_columns \<subseteq> set (columns nulls_example)
   \<and> validate_data (handler_of nulls_example)
       = (False, [''Error: Missing values found in the data.''], handler_of nulls_example)"
proof -
  have d: "df (handler_of nulls_example) = Some nulls_example"
    by (simp add: handler_of_def)
  have n: "\<exists>c \<in> set (cols nulls_example). None \<in> set (snd c)"
    by (simp add: nulls_example_def)
  have c: "\<not> set expected_columns \<subseteq> set (columns nulls_example)"
    by (simp add: expected_columns_def columns_def nulls_example_def)
  show ?thesis
    by (intro conjI d n c validate_nulls_first [OF d n])
qed

text \<open>
  C3. A loaded frame without NaN cells that lacks one of the expected columns is rejected
  with the message about missing columns.
\<close>

theorem validate_missing_columns:
  assumes "df h = Some t" and "\<forall>c \<in> set (cols t). None \<notin> set (snd c)"
    and "\<exists>col \<in> set expected_columns. col \<notin> set (columns t)"
  shows "validate_data h = (False, [''Error: Missing expected columns.''], h)"
  using assms by (auto simp: validate_data_loaded)

theorem validate_missing_columns_witness:
  "df (handler_of level_example) = Some level_example
   \<and> isnull_sum_sum level_example = 0
   \<and> (\<exists>col \<in> set expected_columns. col \<notin> set (columns level_example))
   \<and> validate_data (handler_of level_example)
       = (False, [''Error: Missing expected columns.''], handler_of level_example)"
proof -
  have d: "df (handler_of level_example) = Some level_example"
    by (simp add: handler_of_def)
  have n: "\<forall>c \<in> set (cols level_example). None \<notin> set (snd c)"
    by (simp add: level_example_def)
  have c: "\<exists>col \<in> set expected_columns. col \<notin> set (columns level_example)"
    by (simp add: expected_columns_def columns_def level_example_def)
  have z: "isnull_sum_sum level_example = 0"
    using n isnull_sum_sum_pos [of level_example] by blast
  show ?thesis
    by (intro conjI d z c validate_missing_columns [OF d n c])
qed

text \<open>
  C4. For a loaded frame, validation returns true exactly when the frame has no NaN cell
  and every expected column is among its columns.
\<close>

theorem validate_true_iff:
  assumes "df h = Some t"
  shows "fst (validate_data h) \<longleftrightarrow>
         (\<forall>c \<in> set (cols t). None \<notin> set (snd c)) \<and> (\<forall>col \<in> set expected_columns. col \<in> set (columns t))"
  using assms by (auto simp: validate_data_loaded)


theorem validate_true_iff_witness:
  "df (handler_of (concat_axis1 stress_example level_example))
     = Some (concat_axis1 stress_example level_example)
   \<and> fst (validate_data (handler_of (concat_axis1 stress_example level_example)))
   \<and> isnull_sum_sum (concat_axis1 stress_example level_example) = 0
   \<and> set expected_columns \<subseteq> set (columns (concat_axis1 stress_example level_example))"
proof -
  let ?t = "concat_axis1 stress_example level_example"
  have d: "df (handler_of ?t) = Some ?t"
    by (simp add: handler_of_def)
  have n: "\<forall>c \<in> set (cols ?t). None \<notin> set (snd c)"
    by (simp add: concat_axis1_def reindex_def example_defs)
  have c: "\<forall>col \<in> set expected_columns. col \<in> set (columns ?t)"
    unfolding columns_concat by (simp add: columns_def expected_columns_def example_defs)
  have z: "isnull_sum_sum ?t = 0"
    using n isnull_sum_sum_pos [of ?t] by blast
  have s: "set expected_columns \<subseteq> set (columns ?t)"
    using c by blast
  have "fst (validate_data (handler_of ?t))"
    using validate_true_iff [OF d] n c by blast
  then show ?thesis
    by (intro conjI d z s)
qed

text \<open>
  C9. The expected columns are the fixed list \<open>Gender\<close>, \<open>Age\<close>, \<open>stress_level\<close>;
  \<open>validate_data\<close> takes nothing but the handler. A loaded frame without NaN cells is
  accepted exactly when it has these three columns, whatever other columns it has, and is
  rejected with the message about missing columns otherwise.
\<close>

theorem validate_fixed_columns:
  assumes "df h = Some t" and "\<forall>c \<in> set (cols t). None \<notin> set (snd c)"
  shows "expected_columns = [''Gender'', ''Age'', ''stress_level'']
         \<and> validate_data h
             = (if {''Gender'', ''Age'', ''stress_level''} \<subseteq> set (columns t)
                then (True, [''Data validation successful.''], h)
                else (False, [''Error: Missing expected columns.''], h))"
  using assms by (auto simp: validate_data_loaded expected_columns_def)

theorem validate_fixed_columns_witness:
  "df (handler_of merged_example) = Some merged_example
   \<and> isnull_sum_sum merged_example = 0
   \<and> columns merged_example
       = [''Gender'', ''Age'', ''Which type of stress do you primarily experience?'',
          ''anxiety_level'', ''stress_level'']
   \<and> validate_data (handler_of merged_example)
       = (True, [''Data validation successful.''], handler_of merged_example)
   \<and> df (handler_of gender_only_example) = Some gender_only_example
   \<and> isnull_sum_sum gender_only_example = 0
   \<and> columns gender_only_example = [''Gender'']
   \<and> validate_data (handler_of gender_only_example)
       = (False, [''Error: Missing expected columns.''], handler_of gender_only_example)"
proof -
  have d: "df (handler_of merged_example) = Some merged_example"
    by (simp add: handler_of_def)
  have n: "\<forall>c \<in> set (cols merged_example). None \<notin> set (snd c)"
    unfolding merged_example_cols by (simp add: example_defs)
  have z: "isnull_sum_sum merged_example = 0"
    using n isnull_sum_sum_pos [of merged_example] by blast
  have v: "validate_data (handler_of merged_example)
       = (True, [''Data validation successful.''], handler_of merged_example)"
    using validate_fixed_columns [OF d n, THEN conjunct2]
    unfolding merged_example_columns by simp
  have d': "df (handler_of gender_only_example) = Some gender_only_example"
    by (simp add: handler_of_def)
  have n': "\<forall>c \<in> set (cols gender_only_example). None \<notin> set (snd c)"
    by (simp add: gender_only_example_def)
  have z': "isnull_sum_sum gender_only_example = 0"
    using n' isnull_sum_sum_pos [of gender_only_example] by blast
  have k': "columns gender_only_example = [''Gender'']"
    by (simp add: columns_def gender_only_example_def)
  have v': "validate_data (handler_of gender_only_example)
       = (False, [''Error: Missing expected columns.''], handler_of gender_only_example)"
    using validate_fixed_columns [OF d' n', THEN conjunct2]
    unfolding k' by simp
  show ?thesis
    by (intro conjI d z merged_example_columns v d' z' k' v')
qed

text \<open>
  C10. Validation and the JSON export leave the handler, and so its frame, as it was,
  whatever they return or raise.
\<close>

theorem read_only:
  "snd (snd (validate_data h)) = h \<and> snd (get_data_as_json other h orient) = h"
  by (simp add: validate_data_def get_data_as_json_def split: option.split sum.split)

theorem read_only_witness:
  "snd (snd (validate_data (handler_of nulls_example))) = handler_of nulls_example
   \<and> snd (get_data_as_json unknown_orient (handler_of nulls_example) ''records'')
       = handler_of nulls_example"
  by (rule read_only)

text \<open>
  C5. A file that exists but cannot be opened is unreadable, and reading it raises
  \<open>PermissionError\<close>, which the handler does not catch: the constructor raises, whichever
  of the two paths it is.
\<close>

theorem load_locked_counterexample:
  "example_files ''locked.csv'' = Inl PermissionError
   \<and> init example_files ''locked.csv'' ''StressLevelDataset.csv'' = Inl PermissionError
   \<and> init example_files ''Stress_Dataset.csv'' ''locked.csv'' = Inl PermissionError"
  by (simp add: init_def load_and_merge_data_def example_files_def)

text \<open>
  C5, as the code has it. If the first file does not exist, or the first file is read and
  the second does not exist, the constructor prints its message and returns a handler
  without a frame; on this handler validation returns false, prints nothing, and the
  export returns \<open>None\<close>, neither raising. Every other exception of the first read, or of
  the second read after the first file was read, propagates out of the constructor.
\<close>

theorem load_not_found:
  "(read_csv sp = Inl FileNotFoundError
      \<or> (\<exists>a. read_csv sp = Inr a) \<and> read_csv slp = Inl FileNotFoundError
    \<longrightarrow> (\<exists>h. init read_csv sp slp
                 = Inr (h, [''Make sure the CSV files are in the correct directory.''])
             \<and> df h = None
             \<and> validate_data h = (False, [], h)
             \<and> get_data_as_json other h orient = (Inr None, h)))
   \<and> (\<forall>e. e \<noteq> FileNotFoundError
          \<longrightarrow> read_csv sp = Inl e \<or> (\<exists>a. read_csv sp = Inr a) \<and> read_csv slp = Inl e
          \<longrightarrow> init read_csv sp slp = Inl e)"
  by (auto simp: init_def load_and_merge_data_def validate_data_def get_data_as_json_def)

theorem load_not_found_witness:
  "example_files ''Stress_Dataset.csv'' = Inr stress_example
   \<and> example_files ''missing.csv'' = Inl FileNotFoundError
   \<and> (\<exists>h. init example_files ''Stress_Dataset.csv'' ''missing.csv''
               = Inr (h, [''Make sure the CSV files are in the correct directory.''])
           \<and> df h = None
           \<and> validate_data h = (False, [], h)
           \<and> get_data_as_json unknown_orient h ''records'' = (Inr None, h))
   \<and> example_files ''empty.csv'' = Inl EmptyDataError
   \<and> EmptyDataError \<noteq> FileNotFoundError
   \<and> init example_files ''Stress_Dataset.csv'' ''empty.csv'' = Inl EmptyDataError"
proof -
  have ra: "example_files ''Stress_Dataset.csv'' = Inr stress_example"
    and rb: "example_files ''missing.csv'' = Inl FileNotFoundError"
    and rc: "example_files ''empty.csv'' = Inl EmptyDataError"
    by (simp_all add: example_files_def)
  have ne: "EmptyDataError \<noteq> FileNotFoundError"
    by simp
  have h1: "example_files ''Stress_Dataset.csv'' = Inl FileNotFoundError
        \<or> (\<exists>a. example_files ''Stress_Dataset.csv'' = Inr a)
            \<and> example_files ''missing.csv'' = Inl FileNotFoundError"
    using ra rb by blast
  have h2: "example_files ''Stress_Dataset.csv'' = Inl EmptyDataError
        \<or> (\<exists>a. example_files ''Stress_Dataset.csv'' = Inr a)
            \<and> example_files ''empty.csv'' = Inl EmptyDataError"
    using ra rc by blast
  have c1: "\<exists>h. init example_files ''Stress_Dataset.csv'' ''missing.csv''
               = Inr (h, [''Make sure the CSV files are in the correct directory.''])
           \<and> df h = None
           \<and> validate_data h = (False, [], h)
           \<and> get_data_as_json unknown_orient h ''records'' = (Inr None, h)"
    using load_not_found [where read_csv = example_files and sp = "''Stress_Dataset.csv''"
        and slp = "''missing.csv''" and other = unknown_orient and orient = "''records''"] h1
    by blast
  have c2: "init example_files ''Stress_Dataset.csv'' ''empty.csv'' = Inl EmptyDataError"
    using load_not_found [where read_csv = example_files and sp = "''Stress_Dataset.csv''"
        and slp = "''empty.csv''" and other = unknown_orient and orient = "''records''"] h2 ne
    by blast
  show ?thesis
    by (intro conjI ra rb c1 rc ne c2)
qed







end
